theory Spec2Isabelle
  imports Main "HOL-Library.Word"
begin

unbundle bit_operations_syntax

section \<open>Data model of the hot-patching library\<close>

text \<open>
  Addresses and 64-bit register values are \<open>64 word\<close>. Pointers into the text of
  a patched object are compared as the C code compares them (unsigned).
\<close>

type_synonym u64 = "64 word"
type_synonym u8 = "8 word"

text \<open>
  The constants of \<^verbatim>\<open>intercept.h\<close> and \<^verbatim>\<open>rv_encode.h\<close> that
  \<^verbatim>\<open>intercept.c\<close> and \<^verbatim>\<open>patcher.c\<close> use. The headers are not part
  of the sources at hand, so every function that uses one of them takes the whole
  table as its first argument.
\<close>

record cfg =
  TYPE_GW :: int
  TYPE_MID :: int
  TYPE_GW_SIZE :: nat
  TYPE_MID_SIZE :: nat
  JAL_INS_SIZE :: nat
  C_LI_INS_SIZE :: nat
  ADDI_INS_SIZE :: nat
  ECALL_INS_SIZE :: nat
  MODIFY_SP_INS_SIZE :: nat
  STORE_LOAD_INS_SIZE :: nat
  JUMP_2GB_INS_SIZE :: nat
  C_NOP_INS_SIZE :: nat
  JAL_MID_REACH :: int
  SURROUNDING_INSTRS_NUM :: nat
  SYSCALL_IDX :: nat
  REG_RA :: u8
  riscv_c :: bool

text \<open>\<^verbatim>\<open>struct intercept_disasm_result\<close>: one disassembled instruction.\<close>

record intercept_disasm_result =
  address :: u64
  length_ins :: u8
  is_set :: bool
  is_syscall :: bool
  is_abs_jump :: bool
  has_ip_relative_opr :: bool
  is_ra_used :: bool
  reg_set :: u8
  a7_set :: int
  is_a7_modified :: bool

text \<open>\<^verbatim>\<open>struct patch_desc\<close>: one \<^verbatim>\<open>ecall\<close> site.\<close>

record patch_desc =
  syscall_addr :: u64
  surrounding_instrs :: "intercept_disasm_result list"
  syscall_num :: int
  syscall_idx :: nat
  return_register :: u8
  dst_jmp_patch :: u64
  patch_size_bytes :: nat
  return_address :: u64
  relocation_address :: u64
  is_ra_used_before :: bool
  is_ra_used_after :: bool
  start_with_c_nop :: bool
  end_with_c_nop :: bool

text \<open>
  \<^verbatim>\<open>struct intercept_desc\<close>: one patched object. \<^verbatim>\<open>count\<close> is the length
  of \<open>items\<close>; \<open>jump_table\<close> stands for the jump-target set that
  \<^verbatim>\<open>has_jump\<close> reads and \<^verbatim>\<open>mark_jump\<close> extends.
\<close>

record intercept_desc =
  base_addr :: u64
  text_start :: u64
  text_end :: u64
  items :: "patch_desc list"
  uses_trampoline :: bool
  trampoline_address :: u64
  jump_table :: "u64 list"

text \<open>\<^verbatim>\<open>struct wrapper_ret\<close>: the register pair handed back to the assembly entry.\<close>

record wrapper_ret =
  a0 :: u64
  a1 :: u64

text \<open>\<^verbatim>\<open>xabort\<close> writes its message and exits the process.\<close>

datatype abort = Abort string

section \<open>The dispatcher: identifying the patch that fired\<close>

subsection \<open>\<^verbatim>\<open>detect_cur_patch\<close>\<close>

text \<open>
  The local variables that survive the loops, and a ghost field that records at which
  index \<^verbatim>\<open>ret_addrs\<close> is read (one read per patch visited).
\<close>

record dcp_locals =
  l_syscall_num :: int
  l_reloc_addr :: u64
  l_reads :: "nat list"

text \<open>A loop left by \<^verbatim>\<open>goto ret_to_irq_entry\<close>, or run to its end.\<close>

datatype 'a ctl = Goto 'a | Fallthrough 'a

text \<open>
  \<^verbatim>\<open>sizeof(ret_addrs)\<close> for \<^verbatim>\<open>uint64_t ret_addrs[3]\<close>: the size in bytes,
  which is the bound the outer loop uses.
\<close>

definition sizeof_ret_addrs :: nat where
  "sizeof_ret_addrs = 3 * 8"

text \<open>
  Reading \<^verbatim>\<open>ret_addrs[ra_idx]\<close>. Indices 0, 1 and 2 are the array; any other
  index reads whatever the stack holds next to it, given by \<open>oob\<close> (by index and
  by the number of reads made so far, since neighbouring locals change).
\<close>

definition ret_addrs_read :: "u64 \<Rightarrow> u64 \<Rightarrow> u64 \<Rightarrow> (nat \<Rightarrow> nat \<Rightarrow> u64) \<Rightarrow> nat \<Rightarrow> nat \<Rightarrow> u64" where
  "ret_addrs_read MID_ret_addr SML_ret_addr GW_ret_addr oob ra_idx t =
     (if ra_idx = 0 then MID_ret_addr
      else if ra_idx = 1 then SML_ret_addr
      else if ra_idx = 2 then GW_ret_addr
      else oob ra_idx t)"

text \<open>The \<^verbatim>\<open>switch (syscall_num)\<close>: does the patch's tag fit the slot?\<close>

definition slot_matches :: "cfg \<Rightarrow> int \<Rightarrow> nat \<Rightarrow> bool" where
  "slot_matches c num ra_idx =
     (if num = TYPE_GW c then ra_idx = 2
      else if num = TYPE_MID c then ra_idx = 0
      else ra_idx = 1)"

fun dcp_patches :: "cfg \<Rightarrow> (nat \<Rightarrow> nat \<Rightarrow> u64) \<Rightarrow> nat \<Rightarrow> patch_desc list \<Rightarrow> dcp_locals \<Rightarrow> dcp_locals ctl" where
  "dcp_patches c rd ra_idx [] l = Fallthrough l"
| "dcp_patches c rd ra_idx (p # ps) l =
     (let v = rd ra_idx (length (l_reads l));
          l' = \<lparr>l_syscall_num = syscall_num p, l_reloc_addr = relocation_address p,
                l_reads = l_reads l @ [ra_idx]\<rparr>
      in if return_address p = v \<and> slot_matches c (syscall_num p) ra_idx
         then Goto l'
         else dcp_patches c rd ra_idx ps l')"

fun dcp_objs :: "cfg \<Rightarrow> (nat \<Rightarrow> nat \<Rightarrow> u64) \<Rightarrow> nat \<Rightarrow> intercept_desc list \<Rightarrow> dcp_locals \<Rightarrow> dcp_locals ctl" where
  "dcp_objs c rd ra_idx [] l = Fallthrough l"
| "dcp_objs c rd ra_idx (d # ds) l =
     (case dcp_patches c rd ra_idx (items d) l of
        Goto l' \<Rightarrow> Goto l'
      | Fallthrough l' \<Rightarrow> dcp_objs c rd ra_idx ds l')"

function dcp_slots :: "cfg \<Rightarrow> (nat \<Rightarrow> nat \<Rightarrow> u64) \<Rightarrow> intercept_desc list \<Rightarrow> nat \<Rightarrow> dcp_locals \<Rightarrow> nat \<times> dcp_locals" where
  "dcp_slots c rd objs ra_idx l =
     (if ra_idx < sizeof_ret_addrs
      then (case dcp_objs c rd ra_idx objs l of
              Goto l' \<Rightarrow> (ra_idx, l')
            | Fallthrough l' \<Rightarrow> dcp_slots c rd objs (ra_idx + 1) l')
      else (ra_idx, l))"
  by pat_completeness auto
termination
  by (relation "measure (\<lambda>(c, rd, objs, ra_idx, l). sizeof_ret_addrs - ra_idx)") auto

text \<open>
  \<^verbatim>\<open>detect_cur_patch\<close>. The second component is the list of indices at which
  \<^verbatim>\<open>ret_addrs\<close> was read, in order.
\<close>

definition detect_cur_patch :: "cfg \<Rightarrow> intercept_desc list \<Rightarrow> (nat \<Rightarrow> nat \<Rightarrow> u64) \<Rightarrow> u64 \<Rightarrow> u64 \<Rightarrow> u64 \<Rightarrow> (abort + wrapper_ret) \<times> nat list" where
  "detect_cur_patch c objs oob MID_ret_addr SML_ret_addr GW_ret_addr =
     (let l0 = \<lparr>l_syscall_num = - (2 ^ 63), l_reloc_addr = 0, l_reads = []\<rparr>;
          (ra_idx, l) = dcp_slots c (ret_addrs_read MID_ret_addr SML_ret_addr GW_ret_addr oob) objs 0 l0
      in (if ra_idx \<ge> sizeof_ret_addrs
          then Inl (Abort ''Failed to identify patch'')
          else Inr \<lparr>a0 = word_of_int (l_syscall_num l), a1 = l_reloc_addr l\<rparr>,
          l_reads l))"

subsection \<open>\<^verbatim>\<open>get_cur_patch\<close>\<close>

text \<open>
  The returned pointer \<^verbatim>\<open>objs[o].items + p\<close> is the pair \<open>(o, p)\<close>;
  \<^verbatim>\<open>NULL\<close> is \<open>None\<close>. The \<^verbatim>\<open>break\<close> leaves the inner loop only.
\<close>

fun gcp_patches :: "u64 \<Rightarrow> nat \<Rightarrow> nat \<Rightarrow> patch_desc list \<Rightarrow> (nat \<times> nat) option \<Rightarrow> (nat \<times> nat) option" where
  "gcp_patches key o_idx p_idx [] patch = patch"
| "gcp_patches key o_idx p_idx (p # ps) patch =
     (if return_address p = key then Some (o_idx, p_idx)
      else gcp_patches key o_idx (p_idx + 1) ps (Some (o_idx, p_idx)))"

fun gcp_objs :: "u64 \<Rightarrow> nat \<Rightarrow> intercept_desc list \<Rightarrow> (nat \<times> nat) option \<Rightarrow> (nat \<times> nat) option" where
  "gcp_objs key o_idx [] patch = patch"
| "gcp_objs key o_idx (d # ds) patch =
     gcp_objs key (o_idx + 1) ds (gcp_patches key o_idx 0 (items d) patch)"

definition get_cur_patch :: "intercept_desc list \<Rightarrow> u64 \<Rightarrow> (nat \<times> nat) option" where
  "get_cur_patch objs return_address_key = gcp_objs return_address_key 0 objs None"



section \<open>The dispatcher: \<^verbatim>\<open>intercept_routine\<close>\<close>

text \<open>
  Sentinels of \<^verbatim>\<open>intercept.c\<close>, and the Linux RISC-V 64 values of the system
  headers' \<^verbatim>\<open>SYS_rt_sigreturn\<close>, \<^verbatim>\<open>SYS_clone\<close>, \<^verbatim>\<open>SYS_clone3\<close>
  and \<^verbatim>\<open>CLONE_VFORK\<close>.
\<close>

definition UNH_SYSCALL :: u64 where "UNH_SYSCALL = - 0x1000"
definition UNH_GENERIC :: u64 where "UNH_GENERIC = - 0x1001"
definition UNH_CLONE :: u64 where "UNH_CLONE = - 0x1002"

definition SYS_rt_sigreturn :: "32 word" where "SYS_rt_sigreturn = 139"
definition SYS_clone :: "32 word" where "SYS_clone = 220"
definition SYS_clone3 :: "32 word" where "SYS_clone3 = 435"
definition CLONE_VFORK :: u64 where "CLONE_VFORK = 0x4000"

text \<open>\<^verbatim>\<open>struct syscall_desc\<close>: \<open>nr\<close> is a C \<^verbatim>\<open>int\<close>, \<open>args\<close> has six entries.\<close>

record syscall_desc =
  nr :: "32 word"
  args :: "u64 list"

datatype log_outcome = UNKNOWN | KNOWN

text \<open>What \<^verbatim>\<open>intercept_routine\<close> and \<^verbatim>\<open>debug_dump\<close> do to the outside, in order.\<close>

datatype event =
    Log_syscall "(nat \<times> nat) option" syscall_desc log_outcome u64
  | Hook_call u64 "u64 list"
  | Kernel_call "32 word" "u64 list"
  | Clone_child_hook
  | Clone_parent_hook u64
  | Write_fd nat string

text \<open>
  The three hook pointers. \<open>intercept_hook_point\<close> is \<open>None\<close> for \<^verbatim>\<open>NULL\<close>;
  an installed hook maps the syscall number, the arguments and the current content
  of \<^verbatim>\<open>*result\<close> to its return value and the new content of \<^verbatim>\<open>*result\<close>.
  The clone hooks return nothing, so only their presence is recorded.
\<close>

record hooks =
  intercept_hook_point :: "(u64 \<Rightarrow> u64 list \<Rightarrow> u64 \<Rightarrow> 32 word \<times> u64) option"
  intercept_hook_point_clone_child :: bool
  intercept_hook_point_clone_parent :: bool

text \<open>
  The collaborators outside \<^verbatim>\<open>intercept.c\<close>: the magic-syscall handler (its
  return value and what it leaves in \<^verbatim>\<open>*result\<close>), the no-intercept syscall
  primitive, and the memory read \<^verbatim>\<open>((struct clone_args *)p)->stack\<close>.
\<close>

record world =
  handle_magic_syscalls :: "syscall_desc \<Rightarrow> u64 \<Rightarrow> 32 word \<times> u64"
  syscall_no_intercept :: "32 word \<Rightarrow> u64 list \<Rightarrow> wrapper_ret"
  clone_args_stack :: "u64 \<Rightarrow> u64"

definition intercept_routine_post_clone :: "hooks \<Rightarrow> u64 \<Rightarrow> event list" where
  "intercept_routine_post_clone h A0 =
     (if A0 = 0
      then (if intercept_hook_point_clone_child h then [Clone_child_hook] else [])
      else (if intercept_hook_point_clone_parent h then [Clone_parent_hook A0] else []))"

definition intercept_routine :: "world \<Rightarrow> hooks \<Rightarrow> intercept_desc list \<Rightarrow> u64 \<Rightarrow> u64 \<Rightarrow> u64 \<Rightarrow> u64 \<Rightarrow> u64 \<Rightarrow> u64 \<Rightarrow> u64 \<Rightarrow> u64 \<Rightarrow> wrapper_ret \<times> event list" where
  "intercept_routine w h objs A0 A1 A2 A3 A4 A5 A6 A7 =
     (let result = \<lparr>a0 = A0, a1 = A1\<rparr>;
          patch = get_cur_patch objs A6;
          desc = \<lparr>nr = ucast A7, args = [A0, A1, A2, A3, A4, A5]\<rparr>;
          (magic, m) = handle_magic_syscalls w desc (a0 result);
          result = result\<lparr>a0 := m\<rparr>
      in if magic = 0 then (result, [])
         else
           let ev1 = [Log_syscall patch desc UNKNOWN 0];
               (forward_to_kernel, result, ev2) =
                 (case intercept_hook_point h of
                    None \<Rightarrow> (1, result, [])
                  | Some hook \<Rightarrow>
                      (let (r, v) = hook (scast (nr desc)) (args desc) (a0 result)
                       in (r, result\<lparr>a0 := v\<rparr>, [Hook_call (scast (nr desc)) (args desc)])))
           in if nr desc = SYS_rt_sigreturn
              then (\<lparr>a0 = UNH_SYSCALL, a1 = UNH_GENERIC\<rparr>, ev1 @ ev2)
              else if forward_to_kernel \<noteq> 0
              then
                (if nr desc = SYS_clone \<and> (args desc ! 1 \<noteq> 0 \<or> (args desc ! 0) AND CLONE_VFORK \<noteq> 0)
                 then (\<lparr>a0 = UNH_SYSCALL, a1 = UNH_CLONE\<rparr>, ev1 @ ev2)
                 else if nr desc = SYS_clone3 \<and> clone_args_stack w (args desc ! 0) \<noteq> 0
                 then (\<lparr>a0 = UNH_SYSCALL, a1 = UNH_CLONE\<rparr>, ev1 @ ev2)
                 else
                   (let result = syscall_no_intercept w (nr desc) (args desc);
                        ev3 = [Kernel_call (nr desc) (args desc)];
                        ev4 = (if nr desc = SYS_clone then intercept_routine_post_clone h (a0 result)
                               else if nr desc = SYS_clone3 then intercept_routine_post_clone h (a0 result)
                               else [])
                    in (result, ev1 @ ev2 @ ev3 @ ev4 @ [Log_syscall patch desc KNOWN (a0 result)])))
              else (result, ev1 @ ev2 @ [Log_syscall patch desc KNOWN (a0 result)]))"

section \<open>Start-up flags and \<^verbatim>\<open>debug_dump\<close>\<close>

text \<open>
  \<^verbatim>\<open>getenv\<close> on an environment: \<open>None\<close> is \<^verbatim>\<open>NULL\<close> (the variable is not
  set), \<open>Some v\<close> a pointer to its value, which may be the empty string.
\<close>

type_synonym environ = "string \<Rightarrow> string option"

definition getenv :: "environ \<Rightarrow> string \<Rightarrow> string option" where
  "getenv env name = env name"

text \<open>The two flags of \<^verbatim>\<open>intercept.c\<close> read from the environment; both start as false.\<close>

record flags =
  debug_dumps_on :: bool
  patch_all_objs :: bool

definition initial_flags :: flags where
  "initial_flags = \<lparr>debug_dumps_on = False, patch_all_objs = False\<rparr>"

text \<open>
  The part of the constructor \<^verbatim>\<open>intercept\<close> that sets the flags. The first
  argument is the answer of \<^verbatim>\<open>syscall_hook_in_process_allowed\<close>, which lives in
  another file. Nothing after these lines assigns the flags again.
\<close>

definition intercept :: "bool \<Rightarrow> environ \<Rightarrow> flags \<Rightarrow> flags" where
  "intercept allowed env fl =
     (if \<not> allowed then fl
      else fl\<lparr>debug_dumps_on := getenv env ''INTERCEPT_DEBUG_DUMP'' \<noteq> None,
              patch_all_objs := getenv env ''INTERCEPT_ALL_OBJS'' \<noteq> None\<rparr>)"

text \<open>
  \<^verbatim>\<open>debug_dump\<close>, given the text that \<^verbatim>\<open>vsnprintf\<close> formats from its arguments:
  \<^verbatim>\<open>len\<close> is the length of that text.
\<close>

definition debug_dump :: "flags \<Rightarrow> string \<Rightarrow> event list" where
  "debug_dump fl formatted =
     (if \<not> debug_dumps_on fl then []
      else if int (length formatted) \<le> 0 then []
      else [Write_fd 2 formatted])"

section \<open>The patch planner\<close>

text \<open>
  Modelled from the spec: \<^verbatim>\<open>has_jump\<close> and \<^verbatim>\<open>mark_jump\<close> of
  \<^verbatim>\<open>intercept_desc.c\<close>, which is not among the sources. The spec's jump-target
  set is the list \<open>jump_table\<close>.
\<close>

definition has_jump :: "intercept_desc \<Rightarrow> u64 \<Rightarrow> bool" where
  "has_jump d addr = (addr \<in> set (jump_table d))"

definition mark_jump :: "intercept_desc \<Rightarrow> u64 \<Rightarrow> intercept_desc" where
  "mark_jump d addr = d\<lparr>jump_table := addr # jump_table d\<rparr>"

definition is_copiable_before_syscall :: "intercept_disasm_result \<Rightarrow> bool" where
  "is_copiable_before_syscall ins =
     (if \<not> is_set ins then False
      else \<not> (has_ip_relative_opr ins \<or> is_abs_jump ins \<or> is_syscall ins))"

definition is_copiable_after_syscall :: "intercept_disasm_result \<Rightarrow> bool" where
  "is_copiable_after_syscall ins =
     (if \<not> is_set ins then False
      else \<not> (has_ip_relative_opr ins \<or> is_syscall ins))"

definition is_SML_patchable :: "cfg \<Rightarrow> patch_desc \<Rightarrow> u8 \<Rightarrow> bool" where
  "is_SML_patchable c patch patchable_size =
     (if syscall_num patch < 0 then False
      else if unat patchable_size \<le> JAL_INS_SIZE c then False
      else if return_register patch = 0 \<and>
              (unat patchable_size = JAL_INS_SIZE c + C_LI_INS_SIZE c \<and> syscall_num patch > 31)
      then False
      else True)"

subsection \<open>\<^verbatim>\<open>check_two_ecalls\<close>\<close>

text \<open>
  The three loops of \<^verbatim>\<open>check_two_ecalls\<close> have one shape: walk the given indices,
  add each instruction's length to a \<^verbatim>\<open>uint8_t\<close> counter, and return at the first
  index where the counter passes the loop's test. \<open>found\<close> is the value returned
  there. Indices stay below \<^verbatim>\<open>SURROUNDING_INSTRS_NUM\<close>, so they are naturals.
\<close>

fun span_loop :: "(u8 \<Rightarrow> bool) \<Rightarrow> (nat \<Rightarrow> nat) \<Rightarrow> intercept_disasm_result list \<Rightarrow> nat list \<Rightarrow> u8 \<Rightarrow> nat option" where
  "span_loop test found instrs [] size_acc = None"
| "span_loop test found instrs (i # rest) size_acc =
     (let size_acc' = size_acc + length_ins (instrs ! i)
      in if test size_acc' then Some (found i)
         else span_loop test found instrs rest size_acc')"

text \<open>
  For stating properties: the \<^verbatim>\<open>uint8_t\<close> sum of the lengths of the
  instructions at indices \<open>lo\<close> to \<open>hi\<close> of the window.
\<close>

definition span_size :: "intercept_disasm_result list \<Rightarrow> nat \<Rightarrow> nat \<Rightarrow> u8" where
  "span_size instrs lo hi = sum_list (map (\<lambda>i. length_ins (instrs ! i)) [lo..<hi + 1])"

definition check_two_ecalls :: "cfg \<Rightarrow> patch_desc \<Rightarrow> nat \<Rightarrow> nat \<Rightarrow> nat \<Rightarrow> nat" where
  "check_two_ecalls c patch syscall_i start_idx second_ecall_idx =
     (let instrs = surrounding_instrs patch;
          forced_MID =
            (if syscall_num patch < 0
             then span_loop (\<lambda>sz. unat sz \<ge> TYPE_MID_SIZE c) (\<lambda>i. i + 1)
                    instrs [start_idx..<second_ecall_idx] 0
             else None)
      in case forced_MID of
           Some e \<Rightarrow> e
         | None \<Rightarrow>
             (case span_loop (\<lambda>sz. unat sz \<ge> TYPE_MID_SIZE c \<or> is_SML_patchable c patch sz)
                     (\<lambda>i. syscall_i + 1) instrs [start_idx..<syscall_i + 1] 0 of
                Some e \<Rightarrow> e
              | None \<Rightarrow>
                  (case span_loop (is_SML_patchable c patch) (\<lambda>i. i + 1)
                          instrs [start_idx..<second_ecall_idx] 0 of
                     Some e \<Rightarrow> e
                   | None \<Rightarrow> start_idx)))"

text \<open>
  The same searches in the order the specification lists them: a MID-sized span up to
  the first \<^verbatim>\<open>ecall\<close>, an SML-patchable span up to the first \<^verbatim>\<open>ecall\<close>, a
  MID-sized span before the second \<^verbatim>\<open>ecall\<close> when the number is unknown, an
  SML-patchable span before the second \<^verbatim>\<open>ecall\<close>. Used only to compare.
\<close>

definition check_two_ecalls_spec_order :: "cfg \<Rightarrow> patch_desc \<Rightarrow> nat \<Rightarrow> nat \<Rightarrow> nat \<Rightarrow> nat" where
  "check_two_ecalls_spec_order c patch syscall_i start_idx second_ecall_idx =
     (let instrs = surrounding_instrs patch
      in case span_loop (\<lambda>sz. unat sz \<ge> TYPE_MID_SIZE c) (\<lambda>i. syscall_i + 1)
                instrs [start_idx..<syscall_i + 1] 0 of
           Some e \<Rightarrow> e
         | None \<Rightarrow>
             (case span_loop (is_SML_patchable c patch) (\<lambda>i. syscall_i + 1)
                     instrs [start_idx..<syscall_i + 1] 0 of
                Some e \<Rightarrow> e
              | None \<Rightarrow>
                  (case (if syscall_num patch < 0
                         then span_loop (\<lambda>sz. unat sz \<ge> TYPE_MID_SIZE c) (\<lambda>i. i + 1)
                                instrs [start_idx..<second_ecall_idx] 0
                         else None) of
                     Some e \<Rightarrow> e
                   | None \<Rightarrow>
                       (case span_loop (is_SML_patchable c patch) (\<lambda>i. i + 1)
                               instrs [start_idx..<second_ecall_idx] 0 of
                          Some e \<Rightarrow> e
                        | None \<Rightarrow> start_idx))))"

subsection \<open>\<^verbatim>\<open>check_surrounding_instructions\<close>\<close>

text \<open>Subtraction of two \<^verbatim>\<open>uint8_t\<close> values, stored in a \<^verbatim>\<open>uint8_t\<close>.\<close>

definition u8_sub :: "nat \<Rightarrow> nat \<Rightarrow> nat" where
  "u8_sub x y = nat ((int x - int y) mod 256)"

text \<open>
  The first loop: the state is the patch (its \<open>syscall_num\<close> changes),
  \<^verbatim>\<open>patch_start_idx\<close> and \<^verbatim>\<open>patch_end_idx\<close>. A \<^verbatim>\<open>break\<close> returns the state.
\<close>

fun csi_loop :: "cfg \<Rightarrow> intercept_desc \<Rightarrow> intercept_disasm_result list \<Rightarrow> nat list \<Rightarrow> patch_desc \<times> nat \<times> nat \<Rightarrow> patch_desc \<times> nat \<times> nat" where
  "csi_loop c d instrs [] st = st"
| "csi_loop c d instrs (i # rest) (patch, patch_start_idx, patch_end_idx) =
     (if i < SYSCALL_IDX c then
        (let p1 = (if a7_set (instrs ! i) > - 1 then patch\<lparr>syscall_num := a7_set (instrs ! i)\<rparr>
                   else if is_a7_modified (instrs ! i) then patch\<lparr>syscall_num := - 1\<rparr>
                   else patch)
         in if has_jump d (address (instrs ! (i + 1)))
            then csi_loop c d instrs rest (p1\<lparr>syscall_num := - 1\<rparr>, i + 1, patch_end_idx)
            else if \<not> is_copiable_before_syscall (instrs ! i)
            then csi_loop c d instrs rest (p1, i + 1, patch_end_idx)
            else csi_loop c d instrs rest (p1, patch_start_idx, patch_end_idx))
      else if i > SYSCALL_IDX c then
        (if is_syscall (instrs ! i)
         then (patch, patch_start_idx, check_two_ecalls c patch (SYSCALL_IDX c) patch_start_idx i)
         else if \<not> is_copiable_after_syscall (instrs ! i) \<or> has_jump d (address (instrs ! i))
         then (patch, patch_start_idx, i)
         else csi_loop c d instrs rest (patch, patch_start_idx, patch_end_idx))
      else csi_loop c d instrs rest (patch, patch_start_idx, patch_end_idx))"

text \<open>The last loop: the patchable size and the two \<^verbatim>\<open>ra\<close> flags.\<close>

fun csi_size_loop :: "nat \<Rightarrow> intercept_disasm_result list \<Rightarrow> nat list \<Rightarrow> u8 \<times> patch_desc \<Rightarrow> u8 \<times> patch_desc" where
  "csi_size_loop syscall_i instrs [] st = st"
| "csi_size_loop syscall_i instrs (i # rest) (patchable_size, patch) =
     csi_size_loop syscall_i instrs rest
       (patchable_size + length_ins (instrs ! i),
        if is_ra_used (instrs ! i)
        then (if i < syscall_i then patch\<lparr>is_ra_used_before := True\<rparr>
              else patch\<lparr>is_ra_used_after := True\<rparr>)
        else patch)"

text \<open>\<^verbatim>\<open>memmove(instrs, instrs + start, n * sizeof ...)\<close> on the window.\<close>

definition memmove_front :: "'a list \<Rightarrow> nat \<Rightarrow> nat \<Rightarrow> 'a list" where
  "memmove_front xs start n = take n (drop start xs) @ drop n xs"

text \<open>
  The head of \<^verbatim>\<open>check_surrounding_instructions\<close>: the return register taken from
  the instruction after the \<^verbatim>\<open>ecall\<close>, then the first loop over the whole window,
  from \<^verbatim>\<open>patch_start_idx = 0\<close> and \<^verbatim>\<open>patch_end_idx = instrs_num\<close>.
\<close>

definition csi_scan :: "cfg \<Rightarrow> intercept_desc \<Rightarrow> patch_desc \<Rightarrow> patch_desc \<times> nat \<times> nat" where
  "csi_scan c d patch0 =
     (let instrs = surrounding_instrs patch0;
          patch = (if reg_set (instrs ! (SYSCALL_IDX c + 1)) \<noteq> 0
                   then patch0\<lparr>return_register := reg_set (instrs ! (SYSCALL_IDX c + 1))\<rparr>
                   else patch0)
      in csi_loop c d instrs [0..<SURROUNDING_INSTRS_NUM c] (patch, 0, SURROUNDING_INSTRS_NUM c))"

definition check_surrounding_instructions :: "cfg \<Rightarrow> intercept_desc \<Rightarrow> patch_desc \<Rightarrow> patch_desc \<times> u8" where
  "check_surrounding_instructions c d patch0 =
     (let instrs = surrounding_instrs patch0;
          (patch, patch_start_idx, patch_end_idx) = csi_scan c d patch0;
          syscall_i = u8_sub (SYSCALL_IDX c) patch_start_idx;
          patch = patch\<lparr>syscall_idx := syscall_i\<rparr>;
          instrs_num = u8_sub patch_end_idx patch_start_idx
      in if instrs_num < 1 then (patch, 0)
         else
           (let moved = memmove_front instrs patch_start_idx instrs_num;
                patch = patch\<lparr>surrounding_instrs := moved\<rparr>;
                (patchable_size, patch) = csi_size_loop syscall_i moved [0..<instrs_num] (0, patch)
            in (patch, patchable_size)))"

subsection \<open>\<^verbatim>\<open>position_patch\<close> and \<^verbatim>\<open>check_patch_alignment\<close>\<close>

fun cpa_loop :: "u64 \<Rightarrow> u64 \<Rightarrow> intercept_disasm_result list \<Rightarrow> nat list \<Rightarrow> bool \<times> bool \<Rightarrow> bool \<times> bool" where
  "cpa_loop start_addr end_addr instrs [] st = st"
| "cpa_loop start_addr end_addr instrs (i # rest) (sn, en) =
     (if start_addr = address (instrs ! i) then cpa_loop start_addr end_addr instrs rest (False, en)
      else if end_addr = address (instrs ! i) then cpa_loop start_addr end_addr instrs rest (sn, False)
      else if end_addr < address (instrs ! i) then (sn, en)
      else cpa_loop start_addr end_addr instrs rest (sn, en))"

definition check_patch_alignment :: "cfg \<Rightarrow> patch_desc \<Rightarrow> u64 \<Rightarrow> nat \<Rightarrow> patch_desc" where
  "check_patch_alignment c patch start_addr required_size =
     (let (sn, en) = cpa_loop start_addr (start_addr + of_nat required_size)
                       (surrounding_instrs patch) [0..<SURROUNDING_INSTRS_NUM c] (True, True)
      in patch\<lparr>start_with_c_nop := sn, end_with_c_nop := en\<rparr>)"

definition position_patch :: "cfg \<Rightarrow> patch_desc \<Rightarrow> patch_desc" where
  "position_patch c patch =
     (let instrs = surrounding_instrs patch;
          up_to_ecall_size = unat (sum_list (map (\<lambda>i. length_ins (instrs ! i)) [0..<syscall_idx patch + 1]));
          ECALL = of_nat (ECALL_INS_SIZE c); MODIFY_SP = of_nat (MODIFY_SP_INS_SIZE c);
          STORE_LOAD = of_nat (STORE_LOAD_INS_SIZE c); JUMP_2GB = of_nat (JUMP_2GB_INS_SIZE c);
          JAL = of_nat (JAL_INS_SIZE c);
          (ret, start_addr, required_size) =
            (if syscall_num patch = TYPE_GW c then
               (let required_size = TYPE_GW_SIZE c;
                    ret = (if up_to_ecall_size \<ge> required_size
                           then syscall_addr patch + ECALL - MODIFY_SP - STORE_LOAD
                           else address (instrs ! 0) + MODIFY_SP + STORE_LOAD + JUMP_2GB)
                in (ret, ret - JUMP_2GB - STORE_LOAD - MODIFY_SP, required_size))
             else if syscall_num patch = TYPE_MID c then
               (let required_size = TYPE_MID_SIZE c;
                    ret = (if up_to_ecall_size \<ge> required_size
                           then syscall_addr patch + ECALL - MODIFY_SP - STORE_LOAD
                           else address (instrs ! 0) + MODIFY_SP + STORE_LOAD + JAL)
                in (ret, ret - JAL - STORE_LOAD - MODIFY_SP, required_size))
             else
               (let required_size =
                      (if return_register patch \<noteq> 0 then JAL_INS_SIZE c
                       else if riscv_c c \<and> syscall_num patch < 32 then JAL_INS_SIZE c + C_LI_INS_SIZE c
                       else JAL_INS_SIZE c + ADDI_INS_SIZE c);
                    ret = (if return_register patch \<noteq> 0 then syscall_addr patch + JAL
                           else if up_to_ecall_size \<ge> required_size
                           then syscall_addr patch + ECALL - of_nat required_size + JAL
                           else address (instrs ! 0) + JAL)
                in (ret, ret - JAL, required_size)));
          patch = patch\<lparr>return_address := ret, dst_jmp_patch := start_addr,
                        patch_size_bytes := required_size\<rparr>
      in if riscv_c c then check_patch_alignment c patch start_addr required_size else patch)"

subsection \<open>\<^verbatim>\<open>find_GW\<close> and \<^verbatim>\<open>create_patch\<close>\<close>

text \<open>
  The scan over the object's patches: the first \<^verbatim>\<open>TYPE_GW\<close> patch whose entry is
  less than \<^verbatim>\<open>JAL_MID_REACH\<close> bytes from \<open>jump_from\<close> ends the loop. The pointer
  difference is a signed 64-bit value.
\<close>

fun find_GW_loop :: "cfg \<Rightarrow> u64 \<Rightarrow> patch_desc list \<Rightarrow> patch_desc \<Rightarrow> patch_desc" where
  "find_GW_loop c jump_from [] patch = patch"
| "find_GW_loop c jump_from (patch_GW # rest) patch =
     (if syscall_num patch_GW \<noteq> TYPE_GW c then find_GW_loop c jump_from rest patch
      else if \<bar>sint (dst_jmp_patch patch_GW - jump_from)\<bar> < JAL_MID_REACH c
      then patch\<lparr>dst_jmp_patch := dst_jmp_patch patch_GW\<rparr>
      else find_GW_loop c jump_from rest patch)"

definition jump_from_of :: "cfg \<Rightarrow> patch_desc \<Rightarrow> u64" where
  "jump_from_of c patch =
     (if syscall_num patch = TYPE_MID c
      then return_address patch - of_nat (JAL_INS_SIZE c) + of_nat (MODIFY_SP_INS_SIZE c)
      else return_address patch - of_nat (JAL_INS_SIZE c))"

definition find_GW :: "cfg \<Rightarrow> intercept_desc \<Rightarrow> patch_desc \<Rightarrow> patch_desc" where
  "find_GW c d patch =
     (let patch' = find_GW_loop c (jump_from_of c patch) (items d) patch
      in if syscall_num patch' = TYPE_MID c
         then patch'\<lparr>dst_jmp_patch := dst_jmp_patch patch' + of_nat (MODIFY_SP_INS_SIZE c)\<rparr>
         else patch')"


text \<open>
  \<^verbatim>\<open>relocate_instrs\<close> records where the patch's block starts in the relocation
  space and moves the cursor past it. The bytes come from the encoders of
  \<^verbatim>\<open>rv_encode.h\<close>, which are not among the sources: \<open>emitted\<close> is the number of
  bytes they write for a patch.
\<close>

definition relocate_instrs :: "(patch_desc \<Rightarrow> nat) \<Rightarrow> patch_desc \<Rightarrow> u64 \<Rightarrow> patch_desc \<times> u64" where
  "relocate_instrs emitted patch dst =
     (patch\<lparr>relocation_address := dst\<rparr>, dst + of_nat (emitted patch))"

text \<open>The class choice at the head of the first loop of \<^verbatim>\<open>create_patch\<close>.\<close>

definition choose_class :: "cfg \<Rightarrow> patch_desc \<Rightarrow> u8 \<Rightarrow> abort + patch_desc" where
  "choose_class c patch len =
     (if unat len \<ge> TYPE_GW_SIZE c
      then Inr (patch\<lparr>syscall_num := TYPE_GW c, return_register := REG_RA c\<rparr>)
      else if unat len \<ge> TYPE_MID_SIZE c
      then Inr (patch\<lparr>syscall_num := TYPE_MID c, return_register := REG_RA c\<rparr>)
      else if \<not> is_SML_patchable c patch len
      then Inl (Abort ''not enough space for patching around syscall'')
      else Inr patch)"

fun create_patch_first_loop :: "cfg \<Rightarrow> (patch_desc \<Rightarrow> nat) \<Rightarrow> nat list \<Rightarrow> intercept_desc \<times> u64 \<Rightarrow> abort + intercept_desc \<times> u64" where
  "create_patch_first_loop c emitted [] st = Inr st"
| "create_patch_first_loop c emitted (patch_i # rest) (d, dst) =
     (let (patch, len) = check_surrounding_instructions c d (items d ! patch_i)
      in case choose_class c patch len of
           Inl e \<Rightarrow> Inl e
         | Inr patch \<Rightarrow>
             (let patch = position_patch c patch;
                  last_instr_addr = dst_jmp_patch patch + of_nat (patch_size_bytes patch)
                     + (if riscv_c c \<and> end_with_c_nop patch then of_nat (C_NOP_INS_SIZE c) else 0);
                  d = mark_jump d last_instr_addr;
                  (patch, dst) = relocate_instrs emitted patch dst;
                  patch = patch\<lparr>surrounding_instrs := []\<rparr>
              in create_patch_first_loop c emitted rest (d\<lparr>items := (items d)[patch_i := patch]\<rparr>, dst)))"

fun create_patch_second_loop :: "cfg \<Rightarrow> nat list \<Rightarrow> intercept_desc \<Rightarrow> intercept_desc" where
  "create_patch_second_loop c [] d = d"
| "create_patch_second_loop c (patch_i # rest) d =
     (if syscall_num (items d ! patch_i) \<noteq> TYPE_GW c
      then create_patch_second_loop c rest
             (d\<lparr>items := (items d)[patch_i := find_GW c d (items d ! patch_i)]\<rparr>)
      else create_patch_second_loop c rest d)"

definition create_patch :: "cfg \<Rightarrow> (patch_desc \<Rightarrow> nat) \<Rightarrow> intercept_desc \<Rightarrow> u64 \<Rightarrow> abort + intercept_desc \<times> u64" where
  "create_patch c emitted d dst =
     (case create_patch_first_loop c emitted [0..<length (items d)] (d, dst) of
        Inl e \<Rightarrow> Inl e
      | Inr (d1, dst1) \<Rightarrow> Inr (create_patch_second_loop c [0..<length (items d1)] d1, dst1))"

section \<open>The activator\<close>

text \<open>
  What \<^verbatim>\<open>activate_patches\<close> does to the object's text, in order. A run is the
  list of the writes it has made and, when \<^verbatim>\<open>xabort\<close> ended the process, the
  abort: what was written before the abort stays written.
\<close>

datatype text_write =
    Copy_trampoline u64
  | Mprotect_rwx
  | Copy_GW patch_desc
  | Copy_MID patch_desc
  | Copy_SML patch_desc
  | Clear_cache
  | Mprotect_rx

text \<open>The \<^verbatim>\<open>switch (patch->syscall_num)\<close> of the loop.\<close>

definition copy_patch :: "cfg \<Rightarrow> patch_desc \<Rightarrow> text_write" where
  "copy_patch c patch =
     (if syscall_num patch = TYPE_GW c then Copy_GW patch
      else if syscall_num patch = TYPE_MID c then Copy_MID patch
      else Copy_SML patch)"

text \<open>
  The loop over the patches: each iteration tests the patch and, when the test passes,
  writes it before the next patch is looked at. The first patch that fails the test
  ends the process; the patches before it have been written.
\<close>

fun activate_loop :: "cfg \<Rightarrow> intercept_desc \<Rightarrow> patch_desc list \<Rightarrow> text_write list \<times> abort option" where
  "activate_loop c d [] = ([], None)"
| "activate_loop c d (patch # rest) =
     (if dst_jmp_patch patch < text_start d \<or> dst_jmp_patch patch > text_end d
      then ([], Some (Abort ''dst_jmp_patch outside text''))
      else (let (ws, stop) = activate_loop c d rest
            in (copy_patch c patch # ws, stop)))"

text \<open>
  \<^verbatim>\<open>activate_patches\<close>: the trampoline and the change of the page protection come
  before the loop, the cache flush and the second change of protection after it, when
  the loop ran to its end. \<^verbatim>\<open>mprotect_no_intercept\<close> belongs to another file and
  is taken to succeed.
\<close>

definition activate_patches :: "cfg \<Rightarrow> intercept_desc \<Rightarrow> text_write list \<times> abort option" where
  "activate_patches c d =
     (if length (items d) = 0 then ([], None)
      else
        (let before = (if uses_trampoline d then [Copy_trampoline (trampoline_address d)] else [])
                        @ [Mprotect_rwx];
             (ws, stop) = activate_loop c d (items d)
         in case stop of
              Some e \<Rightarrow> (before @ ws, Some e)
            | None \<Rightarrow> (before @ ws @ [Clear_cache, Mprotect_rx], None)))"

section \<open>Concrete tables and descriptors for the examples\<close>

definition rvc_cfg :: cfg where
  "rvc_cfg = \<lparr>TYPE_GW = - 2, TYPE_MID = - 3, TYPE_GW_SIZE = 16, TYPE_MID_SIZE = 12,
     JAL_INS_SIZE = 4, C_LI_INS_SIZE = 2, ADDI_INS_SIZE = 4, ECALL_INS_SIZE = 4,
     MODIFY_SP_INS_SIZE = 2, STORE_LOAD_INS_SIZE = 2, JUMP_2GB_INS_SIZE = 8,
     C_NOP_INS_SIZE = 2, JAL_MID_REACH = 0x100000, SURROUNDING_INSTRS_NUM = 7,
     SYSCALL_IDX = 3, REG_RA = 1, riscv_c = True\<rparr>"

definition mk_patch :: "int \<Rightarrow> u64 \<Rightarrow> u64 \<Rightarrow> u64 \<Rightarrow> patch_desc" where
  "mk_patch num dst ret reloc =
     \<lparr>syscall_addr = 0, surrounding_instrs = [], syscall_num = num, syscall_idx = 0,
      return_register = 0, dst_jmp_patch = dst, patch_size_bytes = 0, return_address = ret,
      relocation_address = reloc, is_ra_used_before = False, is_ra_used_after = False,
      start_with_c_nop = False, end_with_c_nop = False\<rparr>"

definition mk_obj :: "u64 \<Rightarrow> u64 \<Rightarrow> patch_desc list \<Rightarrow> intercept_desc" where
  "mk_obj ts te ps =
     \<lparr>base_addr = 0, text_start = ts, text_end = te, items = ps, uses_trampoline = False,
      trampoline_address = 0, jump_table = []\<rparr>"

definition two_objs :: "intercept_desc list" where
  "two_objs =
     [mk_obj 0x10000 0x20000
        [mk_patch (- 2) 0x10100 0x1010c 0x900000, mk_patch 64 0x10200 0x10204 0x900040],
      mk_obj 0x30000 0x40000
        [mk_patch (- 3) 0x30100 0x30108 0x900080]]"

definition no_stack :: "nat \<Rightarrow> nat \<Rightarrow> u64" where
  "no_stack i t = 0"

definition lone_gw :: "intercept_desc list" where
  "lone_gw = [mk_obj 0x10000 0x20000 [mk_patch (- 2) 0x10100 0x1010c 0x900000]]"

definition quiet_world :: world where
  "quiet_world =
     \<lparr>handle_magic_syscalls = (\<lambda>desc r. (1, r)),
      syscall_no_intercept = (\<lambda>n as. \<lparr>a0 = (if n = SYS_clone \<or> n = SYS_clone3 then - 12 else 77), a1 = 0\<rparr>),
      clone_args_stack = (\<lambda>p. if p = 0x5000 then 0x7000 else 0)\<rparr>"

definition suppress_hook :: "u64 \<Rightarrow> u64 list \<Rightarrow> u64 \<Rightarrow> 32 word \<times> u64" where
  "suppress_hook n as r = (0, 42)"

definition forward_hook :: "u64 \<Rightarrow> u64 list \<Rightarrow> u64 \<Rightarrow> 32 word \<times> u64" where
  "forward_hook n as r = (1, r)"

definition suppressing :: hooks where
  "suppressing = \<lparr>intercept_hook_point = Some suppress_hook,
     intercept_hook_point_clone_child = True, intercept_hook_point_clone_parent = True\<rparr>"

definition forwarding :: hooks where
  "forwarding = \<lparr>intercept_hook_point = Some forward_hook,
     intercept_hook_point_clone_child = True, intercept_hook_point_clone_parent = True\<rparr>"

definition empty_debug_dump :: environ where
  "empty_debug_dump name = (if name = ''INTERCEPT_DEBUG_DUMP'' then Some [] else None)"

definition edge_patch :: patch_desc where
  "edge_patch = (mk_patch 64 0x20000 0x20004 0x900000)\<lparr>patch_size_bytes := 4\<rparr>"

definition edge_obj :: intercept_desc where
  "edge_obj = mk_obj 0x10000 0x20000 [edge_patch]"

definition outside_obj :: intercept_desc where
  "outside_obj = mk_obj 0x10000 0x20000 [mk_patch (- 2) 0x10100 0x1010c 0x900000, mk_patch 64 0x20004 0x20008 0x900040]"

definition plain_ins :: "u64 \<Rightarrow> intercept_disasm_result" where
  "plain_ins addr =
     \<lparr>address = addr, length_ins = 4, is_set = True, is_syscall = False, is_abs_jump = False,
      has_ip_relative_opr = False, is_ra_used = False, reg_set = 0, a7_set = - 1,
      is_a7_modified = False\<rparr>"

definition ecall_ins :: "u64 \<Rightarrow> intercept_disasm_result" where
  "ecall_ins addr = (plain_ins addr)\<lparr>is_syscall := True\<rparr>"

definition ip_relative_ins :: "u64 \<Rightarrow> intercept_disasm_result" where
  "ip_relative_ins addr = (plain_ins addr)\<lparr>has_ip_relative_opr := True\<rparr>"

definition li_a7_ins :: "u64 \<Rightarrow> int \<Rightarrow> intercept_disasm_result" where
  "li_a7_ins addr n = (plain_ins addr)\<lparr>reg_set := 17, a7_set := n, is_a7_modified := True\<rparr>"

definition site :: "u64 \<Rightarrow> intercept_disasm_result list \<Rightarrow> patch_desc" where
  "site addr window =
     \<lparr>syscall_addr = addr, surrounding_instrs = window, syscall_num = - 1, syscall_idx = 0,
      return_register = 0, dst_jmp_patch = 0, patch_size_bytes = 0, return_address = 0,
      relocation_address = 0, is_ra_used_before = False, is_ra_used_after = False,
      start_with_c_nop = False, end_with_c_nop = False\<rparr>"

definition roomy_site :: "u64 \<Rightarrow> patch_desc" where
  "roomy_site addr =
     site addr [plain_ins (addr - 12), plain_ins (addr - 8), plain_ins (addr - 4), ecall_ins addr,
                plain_ins (addr + 4), plain_ins (addr + 8), plain_ins (addr + 12)]"

definition tight_site :: "u64 \<Rightarrow> patch_desc" where
  "tight_site addr =
     site addr [plain_ins (addr - 12), ip_relative_ins (addr - 8), li_a7_ins (addr - 4) 64, ecall_ins addr,
                ip_relative_ins (addr + 4), plain_ins (addr + 8), plain_ins (addr + 12)]"


definition emitted_demo :: "patch_desc \<Rightarrow> nat" where
  "emitted_demo patch = 64"


definition twin_site :: "u64 \<Rightarrow> patch_desc" where
  "twin_site addr =
     site addr [plain_ins (addr - 12), plain_ins (addr - 8), plain_ins (addr - 4), ecall_ins addr,
                plain_ins (addr + 4), ecall_ins (addr + 8), plain_ins (addr + 12)]"

definition cramped_site :: "u64 \<Rightarrow> patch_desc" where
  "cramped_site addr =
     site addr [plain_ins (addr - 12), plain_ins (addr - 8), ip_relative_ins (addr - 4), ecall_ins addr,
                ecall_ins (addr + 4), plain_ins (addr + 8), plain_ins (addr + 12)]"

definition twin_demo :: intercept_desc where
  "twin_demo = mk_obj 0x10000 0x20000 [twin_site 0x10110]"

definition cramped_demo :: intercept_desc where
  "cramped_demo = mk_obj 0x10000 0x20000 [cramped_site 0x10110]"

definition unset_ins :: intercept_disasm_result where
  "unset_ins = (plain_ins 0)\<lparr>length_ins := 0, is_set := False\<rparr>"

definition tail_site :: "u64 \<Rightarrow> patch_desc" where
  "tail_site addr =
     site addr [ip_relative_ins (addr - 12), plain_ins (addr - 8), plain_ins (addr - 4), ecall_ins addr,
                unset_ins, unset_ins, unset_ins]"

definition tail_demo :: intercept_desc where
  "tail_demo = mk_obj 0x10000 0x10114 [tail_site 0x10110]"

definition tail_demo_patched :: intercept_desc where
  "tail_demo_patched =
     \<lparr>base_addr = 0, text_start = 0x10000, text_end = 0x10114,
      items =
        [\<lparr>syscall_addr = 0x10110, surrounding_instrs = [], syscall_num = - 3, syscall_idx = 2,
          return_register = 1, dst_jmp_patch = 0x1010a, patch_size_bytes = 12,
          return_address = 0x10110, relocation_address = 0x900000,
          is_ra_used_before = False, is_ra_used_after = False,
          start_with_c_nop = False, end_with_c_nop = True\<rparr>],
      uses_trampoline = False, trampoline_address = 0,
      jump_table = [0x10116]\<rparr>"


section \<open>Properties of the dispatcher\<close>










declare dcp_slots.simps [simp del]






lemmas example_defs = rvc_cfg_def two_objs_def lone_gw_def mk_obj_def mk_patch_def no_stack_def


text \<open>
  Claim C9 says that the candidate array is read at indices 0, 1 and 2 only. The outer
  loop runs while \<^verbatim>\<open>ra_idx < sizeof(ret_addrs)\<close>, which is 24, not 3: with one
  patch that matches no candidate, the array is read at every index from 0 to 23 before
  the abort, whatever the stack holds beyond the array.
\<close>

theorem detect_cur_patch_reads_past_array:
  "detect_cur_patch rvc_cfg lone_gw oob 1 2 3 =
     (Inl (Abort ''Failed to identify patch''),
      [0, 1, 2, 3, 4, 5, 6, 7, 8, 9, 10, 11, 12, 13, 14, 15, 16, 17, 18, 19, 20, 21, 22, 23])"
  by (simp add: detect_cur_patch_def dcp_slots.simps example_defs
      ret_addrs_read_def slot_matches_def sizeof_ret_addrs_def)

text \<open>
  Claim C7 says that \<^verbatim>\<open>get_cur_patch\<close> returns the last patch whose return address
  equals the key. The \<^verbatim>\<open>break\<close> leaves the inner loop only, so the scan goes on
  with the next object and overwrites the result: in the two-object example the key is
  the return address of patch 0 of object 0, and the function returns patch 0 of
  object 1, whose return address is another one.
\<close>

theorem get_cur_patch_returns_non_matching:
  "return_address (items (two_objs ! 0) ! 0) = 0x1010c \<and>
   get_cur_patch two_objs 0x1010c = Some (1, 0) \<and>
   return_address (items (two_objs ! 1) ! 0) = 0x30108"
  by (simp add: get_cur_patch_def example_defs)

section \<open>Properties of \<^verbatim>\<open>intercept_routine\<close> and \<^verbatim>\<open>debug_dump\<close>\<close>

lemmas dispatch_example_defs = quiet_world_def suppress_hook_def forward_hook_def suppressing_def
  forwarding_def empty_debug_dump_def

lemmas sys_defs = SYS_rt_sigreturn_def SYS_clone_def SYS_clone3_def CLONE_VFORK_def
  UNH_SYSCALL_def UNH_GENERIC_def UNH_CLONE_def

text \<open>
  Claim C2, amended. For every intercepted syscall that the magic-syscall handler does
  not consume and that is not \<^verbatim>\<open>rt_sigreturn\<close>: if the installed hook returns 0
  and leaves \<open>R\<close> in \<^verbatim>\<open>*result\<close>, then \<^verbatim>\<open>intercept_routine\<close> returns
  \<open>R\<close> in \<open>a0\<close> (and the incoming \<open>a1\<close>), and all it does is log the call,
  call the hook and log the outcome \<open>R\<close>: the kernel is not called.
\<close>

theorem hook_result_substituted:
  assumes "handle_magic_syscalls w \<lparr>nr = ucast A7, args = [A0, A1, A2, A3, A4, A5]\<rparr> A0 = (magic, m)"
      and "magic \<noteq> 0"
      and "intercept_hook_point h = Some hook"
      and "hook (scast (ucast A7 :: 32 word)) [A0, A1, A2, A3, A4, A5] m = (0, R)"
      and "(ucast A7 :: 32 word) \<noteq> SYS_rt_sigreturn"
  shows "intercept_routine w h objs A0 A1 A2 A3 A4 A5 A6 A7 =
           (\<lparr>a0 = R, a1 = A1\<rparr>,
            [Log_syscall (get_cur_patch objs A6) \<lparr>nr = ucast A7, args = [A0, A1, A2, A3, A4, A5]\<rparr> UNKNOWN 0,
             Hook_call (scast (ucast A7 :: 32 word)) [A0, A1, A2, A3, A4, A5],
             Log_syscall (get_cur_patch objs A6) \<lparr>nr = ucast A7, args = [A0, A1, A2, A3, A4, A5]\<rparr> KNOWN R])"
  using assms by (simp add: intercept_routine_def Let_def)

text \<open>The theorem at \<^verbatim>\<open>getpid\<close> (172) with a hook that answers 42.\<close>

theorem hook_result_substituted_witness:
  "intercept_routine quiet_world suppressing two_objs 0 0 0 0 0 0 0x1010c 172 =
           (\<lparr>a0 = 42, a1 = 0\<rparr>,
            [Log_syscall (get_cur_patch two_objs 0x1010c) \<lparr>nr = 172, args = [0, 0, 0, 0, 0, 0]\<rparr> UNKNOWN 0,
             Hook_call 172 [0, 0, 0, 0, 0, 0],
             Log_syscall (get_cur_patch two_objs 0x1010c) \<lparr>nr = 172, args = [0, 0, 0, 0, 0, 0]\<rparr> KNOWN 42])"
  using hook_result_substituted [of quiet_world 172 0 0 0 0 0 0 1 0 suppressing suppress_hook 42 two_objs "0x1010c"]
  by (simp add: dispatch_example_defs sys_defs)

text \<open>
  Claim C2 as stated fails for \<^verbatim>\<open>rt_sigreturn\<close> (139): the hook returns 0 and
  sets the result to 42, and \<^verbatim>\<open>intercept_routine\<close> returns the sentinel pair that
  makes the assembly entry perform the real call.
\<close>

theorem rt_sigreturn_ignores_hook_result:
  "suppress_hook 139 [0, 0, 0, 0, 0, 0] 0 = (0, 42) \<and>
   fst (intercept_routine quiet_world suppressing two_objs 0 0 0 0 0 0 0x1010c 139) =
     \<lparr>a0 = UNH_SYSCALL, a1 = UNH_GENERIC\<rparr> \<and>
   UNH_SYSCALL \<noteq> 42"
  by (simp add: intercept_routine_def Let_def dispatch_example_defs sys_defs)

text \<open>
  Claim C3, amended. For every intercepted syscall that the magic-syscall handler does
  not consume and that is forwarded (no hook is installed, or the hook returns
  non-zero): a \<^verbatim>\<open>clone\<close> whose \<open>args[1]\<close> is non-zero or whose flags include
  \<^verbatim>\<open>CLONE_VFORK\<close>, and a \<^verbatim>\<open>clone3\<close> whose argument struct has a non-zero
  \<open>stack\<close>, make \<^verbatim>\<open>intercept_routine\<close> return the pair
  \<open>(UNH_SYSCALL, UNH_CLONE) = (-0x1000, -0x1002)\<close> after logging the call and calling
  the hook: the kernel is not called.
\<close>

theorem clone_with_stack_returns_sentinel:
  assumes "fst (handle_magic_syscalls w \<lparr>nr = ucast A7, args = [A0, A1, A2, A3, A4, A5]\<rparr> A0) \<noteq> 0"
      and "case intercept_hook_point h of None \<Rightarrow> True
           | Some hook \<Rightarrow> fst (hook (scast (ucast A7 :: 32 word)) [A0, A1, A2, A3, A4, A5]
                (snd (handle_magic_syscalls w \<lparr>nr = ucast A7, args = [A0, A1, A2, A3, A4, A5]\<rparr> A0))) \<noteq> 0"
      and "((ucast A7 :: 32 word) = SYS_clone \<and> (A1 \<noteq> 0 \<or> A0 AND CLONE_VFORK \<noteq> 0)) \<or>
           ((ucast A7 :: 32 word) = SYS_clone3 \<and> clone_args_stack w A0 \<noteq> 0)"
  shows "intercept_routine w h objs A0 A1 A2 A3 A4 A5 A6 A7 =
           (\<lparr>a0 = - 0x1000, a1 = - 0x1002\<rparr>,
            Log_syscall (get_cur_patch objs A6) \<lparr>nr = ucast A7, args = [A0, A1, A2, A3, A4, A5]\<rparr> UNKNOWN 0
            # (case intercept_hook_point h of None \<Rightarrow> []
               | Some hook \<Rightarrow> [Hook_call (scast (ucast A7 :: 32 word)) [A0, A1, A2, A3, A4, A5]]))
         \<and> UNH_SYSCALL = - 0x1000 \<and> UNH_CLONE = - 0x1002"
  using assms
  by (auto simp: intercept_routine_def Let_def sys_defs split: option.splits prod.splits)





lemma uc220: "(ucast (220 :: u64) :: 32 word) = 220" by simp
lemma uc435: "(ucast (435 :: u64) :: 32 word) = 435" by simp
lemma sc220: "(scast (220 :: 32 word) :: u64) = 220" by simp
lemma sc435: "(scast (435 :: 32 word) :: u64) = 435" by simp

text \<open>
  The theorem at a \<^verbatim>\<open>clone\<close> with child stack \<open>0x7000\<close> and at a
  \<^verbatim>\<open>clone3\<close> whose argument struct at \<open>0x5000\<close> has a non-zero stack.
\<close>

theorem clone_with_stack_returns_sentinel_witness:
  "intercept_routine quiet_world forwarding two_objs 0x100 0x7000 0 0 0 0 0x1010c 220 =
           (\<lparr>a0 = - 0x1000, a1 = - 0x1002\<rparr>,
            [Log_syscall (get_cur_patch two_objs 0x1010c) \<lparr>nr = 220, args = [0x100, 0x7000, 0, 0, 0, 0]\<rparr> UNKNOWN 0,
             Hook_call 220 [0x100, 0x7000, 0, 0, 0, 0]])
   \<and> intercept_routine quiet_world forwarding two_objs 0x5000 88 0 0 0 0 0x1010c 435 =
           (\<lparr>a0 = - 0x1000, a1 = - 0x1002\<rparr>,
            [Log_syscall (get_cur_patch two_objs 0x1010c) \<lparr>nr = 435, args = [0x5000, 88, 0, 0, 0, 0]\<rparr> UNKNOWN 0,
             Hook_call 435 [0x5000, 88, 0, 0, 0, 0]])"
proof -
  have m: "\<And>d r. handle_magic_syscalls quiet_world d r = (1, r)"
    by (simp add: quiet_world_def)
  have hk: "intercept_hook_point forwarding = Some forward_hook"
    by (simp add: forwarding_def)
  have a1: "fst (handle_magic_syscalls quiet_world
      \<lparr>nr = ucast (220 :: u64), args = [0x100, 0x7000, 0, 0, 0, 0]\<rparr> 0x100) \<noteq> 0"
    by (simp add: m)
  have a2: "case intercept_hook_point forwarding of None \<Rightarrow> True
      | Some hook \<Rightarrow> fst (hook (scast (ucast (220 :: u64) :: 32 word)) [0x100, 0x7000, 0, 0, 0, 0]
          (snd (handle_magic_syscalls quiet_world
             \<lparr>nr = ucast (220 :: u64), args = [0x100, 0x7000, 0, 0, 0, 0]\<rparr> 0x100))) \<noteq> 0"
    by (simp add: hk forward_hook_def)
  have a3: "((ucast (220 :: u64) :: 32 word) = SYS_clone \<and> ((0x7000 :: u64) \<noteq> 0 \<or> (0x100 :: u64) AND CLONE_VFORK \<noteq> 0)) \<or>
      ((ucast (220 :: u64) :: 32 word) = SYS_clone3 \<and> clone_args_stack quiet_world 0x100 \<noteq> 0)"
    by (simp add: SYS_clone_def)
  have b1: "fst (handle_magic_syscalls quiet_world
      \<lparr>nr = ucast (435 :: u64), args = [0x5000, 88, 0, 0, 0, 0]\<rparr> 0x5000) \<noteq> 0"
    by (simp add: m)
  have b2: "case intercept_hook_point forwarding of None \<Rightarrow> True
      | Some hook \<Rightarrow> fst (hook (scast (ucast (435 :: u64) :: 32 word)) [0x5000, 88, 0, 0, 0, 0]
          (snd (handle_magic_syscalls quiet_world
             \<lparr>nr = ucast (435 :: u64), args = [0x5000, 88, 0, 0, 0, 0]\<rparr> 0x5000))) \<noteq> 0"
    by (simp add: hk forward_hook_def)
  have b3: "((ucast (435 :: u64) :: 32 word) = SYS_clone \<and> ((88 :: u64) \<noteq> 0 \<or> (0x5000 :: u64) AND CLONE_VFORK \<noteq> 0)) \<or>
      ((ucast (435 :: u64) :: 32 word) = SYS_clone3 \<and> clone_args_stack quiet_world 0x5000 \<noteq> 0)"
    by (simp add: SYS_clone3_def SYS_clone_def quiet_world_def)
  from clone_with_stack_returns_sentinel [OF a1 a2 a3, of two_objs "0x1010c"]
       clone_with_stack_returns_sentinel [OF b1 b2 b3, of two_objs "0x1010c"]
  show ?thesis
    by (simp only: hk option.case uc220 uc435 sc220 sc435 simp_thms)
qed


text \<open>
  Claim C3 as stated fails when the hook suppresses the call: for a \<^verbatim>\<open>clone\<close> with
  child stack \<open>0x7000\<close> and a hook that returns 0 with result 42, the routine returns
  42 and not the sentinel.
\<close>

theorem suppressed_clone_returns_hook_result:
  "suppress_hook 220 [0x100, 0x7000, 0, 0, 0, 0] 0x100 = (0, 42) \<and>
   fst (intercept_routine quiet_world suppressing two_objs 0x100 0x7000 0 0 0 0 0x1010c 220) =
     \<lparr>a0 = 42, a1 = 0x7000\<rparr> \<and>
   (42 :: u64) \<noteq> - 0x1000"
  by (simp add: intercept_routine_def Let_def dispatch_example_defs sys_defs)



text \<open>
  Claim C10. When a \<^verbatim>\<open>clone\<close> or \<^verbatim>\<open>clone3\<close> is forwarded to the kernel by
  \<^verbatim>\<open>intercept_routine\<close> itself (no new stack, no \<^verbatim>\<open>CLONE_VFORK\<close>) and the
  kernel returns \<open>v\<close>, the routine runs \<^verbatim>\<open>intercept_routine_post_clone\<close> on
  \<open>v\<close> right after the call: the child hook (when installed) if and only if
  \<open>v = 0\<close>, and otherwise the parent hook (when installed) with \<open>v\<close>, whatever
  \<open>v\<close> is, a negative error code included.
\<close>

theorem post_clone_hook_by_result:
  assumes "fst (handle_magic_syscalls w \<lparr>nr = ucast A7, args = [A0, A1, A2, A3, A4, A5]\<rparr> A0) \<noteq> 0"
      and "case intercept_hook_point h of None \<Rightarrow> True
           | Some hook \<Rightarrow> fst (hook (scast (ucast A7 :: 32 word)) [A0, A1, A2, A3, A4, A5]
                (snd (handle_magic_syscalls w \<lparr>nr = ucast A7, args = [A0, A1, A2, A3, A4, A5]\<rparr> A0))) \<noteq> 0"
      and "((ucast A7 :: 32 word) = SYS_clone \<and> A1 = 0 \<and> A0 AND CLONE_VFORK = 0) \<or>
           ((ucast A7 :: 32 word) = SYS_clone3 \<and> clone_args_stack w A0 = 0)"
      and "v = a0 (syscall_no_intercept w (ucast A7) [A0, A1, A2, A3, A4, A5])"
  shows "snd (intercept_routine w h objs A0 A1 A2 A3 A4 A5 A6 A7) =
           Log_syscall (get_cur_patch objs A6) \<lparr>nr = ucast A7, args = [A0, A1, A2, A3, A4, A5]\<rparr> UNKNOWN 0
           # (case intercept_hook_point h of None \<Rightarrow> []
              | Some hook \<Rightarrow> [Hook_call (scast (ucast A7 :: 32 word)) [A0, A1, A2, A3, A4, A5]])
           @ [Kernel_call (ucast A7) [A0, A1, A2, A3, A4, A5]]
           @ intercept_routine_post_clone h v
           @ [Log_syscall (get_cur_patch objs A6) \<lparr>nr = ucast A7, args = [A0, A1, A2, A3, A4, A5]\<rparr> KNOWN v]
         \<and> intercept_routine_post_clone h v =
             (if v = 0 then (if intercept_hook_point_clone_child h then [Clone_child_hook] else [])
              else (if intercept_hook_point_clone_parent h then [Clone_parent_hook v] else []))"
  using assms
  by (auto simp: intercept_routine_def intercept_routine_post_clone_def Let_def sys_defs
           split: option.splits prod.splits)



text \<open>
  The theorem at a \<^verbatim>\<open>clone\<close> that fails in the kernel with \<open>-12\<close>: the
  parent hook receives \<open>-12\<close>.
\<close>

theorem post_clone_hook_by_result_witness:
  "snd (intercept_routine quiet_world forwarding two_objs 0x11 0 0 0 0 0 0x1010c 220) =
     [Log_syscall (get_cur_patch two_objs 0x1010c) \<lparr>nr = 220, args = [0x11, 0, 0, 0, 0, 0]\<rparr> UNKNOWN 0,
      Hook_call 220 [0x11, 0, 0, 0, 0, 0],
      Kernel_call 220 [0x11, 0, 0, 0, 0, 0],
      Clone_parent_hook (- 12),
      Log_syscall (get_cur_patch two_objs 0x1010c) \<lparr>nr = 220, args = [0x11, 0, 0, 0, 0, 0]\<rparr> KNOWN (- 12)]
   \<and> sint (- 12 :: u64) = - 12"
proof -
  have m: "\<And>d r. handle_magic_syscalls quiet_world d r = (1, r)"
    by (simp add: quiet_world_def)
  have hk: "intercept_hook_point forwarding = Some forward_hook"
    by (simp add: forwarding_def)
  have par: "intercept_hook_point_clone_parent forwarding"
    by (simp add: forwarding_def)
  have a1: "fst (handle_magic_syscalls quiet_world
      \<lparr>nr = ucast (220 :: u64), args = [0x11, 0, 0, 0, 0, 0]\<rparr> 0x11) \<noteq> 0"
    by (simp add: m)
  have a2: "case intercept_hook_point forwarding of None \<Rightarrow> True
      | Some hook \<Rightarrow> fst (hook (scast (ucast (220 :: u64) :: 32 word)) [0x11, 0, 0, 0, 0, 0]
          (snd (handle_magic_syscalls quiet_world
             \<lparr>nr = ucast (220 :: u64), args = [0x11, 0, 0, 0, 0, 0]\<rparr> 0x11))) \<noteq> 0"
    by (simp add: hk forward_hook_def)
  have a3: "((ucast (220 :: u64) :: 32 word) = SYS_clone \<and> (0 :: u64) = 0 \<and> (0x11 :: u64) AND CLONE_VFORK = 0) \<or>
      ((ucast (220 :: u64) :: 32 word) = SYS_clone3 \<and> clone_args_stack quiet_world 0x11 = 0)"
    by (simp add: SYS_clone_def CLONE_VFORK_def)
  have a4: "(- 12 :: u64) = a0 (syscall_no_intercept quiet_world (ucast (220 :: u64)) [0x11, 0, 0, 0, 0, 0])"
    by (simp add: quiet_world_def SYS_clone_def)
  have nz: "(- 12 :: u64) \<noteq> 0" by simp
  have s: "sint (- 12 :: u64) = - 12" by simp
  from post_clone_hook_by_result [OF a1 a2 a3 a4, of two_objs "0x1010c"]
  show ?thesis
    by (simp only: hk par nz s option.case uc220 sc220 simp_thms if_True if_False append.simps)
qed

text \<open>
  Claim C8, amended. In a process where interception is allowed, \<^verbatim>\<open>debug_dump\<close>
  writes its (non-empty) text to file descriptor 2 exactly when
  \<^verbatim>\<open>INTERCEPT_DEBUG_DUMP\<close> is set in the environment, whatever its value, the
  empty string included; when the variable is not set, or interception is not allowed,
  or the constructor has not run, it writes nothing.
\<close>

theorem debug_dump_enabled_when_set:
  "debug_dump (intercept True env initial_flags) formatted =
     (if getenv env ''INTERCEPT_DEBUG_DUMP'' = None \<or> formatted = [] then []
      else [Write_fd 2 formatted])
   \<and> debug_dump (intercept False env initial_flags) formatted = []
   \<and> debug_dump initial_flags formatted = []"
  by (simp add: debug_dump_def intercept_def initial_flags_def)



text \<open>
  Claim C8 as stated fails when the variable is set to the empty string:
  \<^verbatim>\<open>getenv\<close> returns a non-null pointer and the dumps are on.
\<close>

theorem debug_dump_enabled_by_empty_value:
  "getenv empty_debug_dump ''INTERCEPT_DEBUG_DUMP'' = Some [] \<and>
   debug_dump (intercept True empty_debug_dump initial_flags) ''analyze'' = [Write_fd 2 ''analyze'']"
  by (simp add: debug_dump_def intercept_def initial_flags_def getenv_def empty_debug_dump_def)

section \<open>Properties of the patch planner\<close>

lemmas site_defs = plain_ins_def ecall_ins_def ip_relative_ins_def li_a7_ins_def site_def
  roomy_site_def tight_site_def








lemma first_loop_length:
  "create_patch_first_loop c emitted idxs (d, dst) = Inr (d1, dst1) \<Longrightarrow>
     length (items d1) = length (items d)"
proof (induction idxs arbitrary: d dst)
  case Nil
  then show ?case by simp
next
  case (Cons i idxs)
  then show ?case
    by (auto simp: Let_def mark_jump_def relocate_instrs_def split: prod.splits sum.splits)
qed






lemma span_size_step:
  "a \<le> k \<Longrightarrow> sum_list (map (\<lambda>i. length_ins (instrs ! i)) [a..<k]) + length_ins (instrs ! k) = span_size instrs a k"
  by (simp add: span_size_def)

lemma span_loop_find:
  "a \<le> k \<Longrightarrow>
     span_loop test found instrs [k..<b] (sum_list (map (\<lambda>i. length_ins (instrs ! i)) [a..<k])) =
       map_option found (find (\<lambda>i. test (span_size instrs a i)) [k..<b])"
proof (induction "b - k" arbitrary: k)
  case 0
  then show ?case by simp
next
  case (Suc n)
  then have lt: "k < b" by simp
  then have unf: "[k..<b] = k # [Suc k..<b]" by (rule upt_conv_Cons)
  have acc: "sum_list (map (\<lambda>i. length_ins (instrs ! i)) [a..<k]) + length_ins (instrs ! k) =
             span_size instrs a k"
    using Suc.prems by (rule span_size_step)
  have "span_loop test found instrs [Suc k..<b] (sum_list (map (\<lambda>i. length_ins (instrs ! i)) [a..<Suc k])) =
       map_option found (find (\<lambda>i. test (span_size instrs a i)) [Suc k..<b])"
    using Suc.hyps(2) Suc.prems by (intro Suc.hyps(1)) simp_all
  then have ih: "span_loop test found instrs [Suc k..<b] (span_size instrs a k) =
       map_option found (find (\<lambda>i. test (span_size instrs a i)) [Suc k..<b])"
    by (simp only: span_size_def Suc_eq_plus1)
  show ?case
    unfolding unf by (simp only: span_loop.simps Let_def acc ih find.simps option.map if_distrib [of "map_option found"] cong: if_cong)
qed

lemma span_loop_find0:
  "span_loop test found instrs [a..<b] 0 =
     map_option found (find (\<lambda>i. test (span_size instrs a i)) [a..<b])"
  using span_loop_find [of a a test found instrs b] by simp

lemma case_map_option:
  "(case map_option f x of None \<Rightarrow> a | Some e \<Rightarrow> e) = (case x of None \<Rightarrow> a | Some i \<Rightarrow> f i)"
  by (cases x) simp_all

lemma if_map_option:
  "(if b then map_option f x else None) = map_option f (if b then x else None)"
  by simp

lemma check_two_ecalls_order:
  "check_two_ecalls c patch syscall_i start_idx second_ecall_idx =
     (case (if syscall_num patch < 0
            then find (\<lambda>i. TYPE_MID_SIZE c \<le> unat (span_size (surrounding_instrs patch) start_idx i))
                   [start_idx..<second_ecall_idx]
            else None) of
        Some i \<Rightarrow> i + 1
      | None \<Rightarrow>
          (case find (\<lambda>i. TYPE_MID_SIZE c \<le> unat (span_size (surrounding_instrs patch) start_idx i) \<or>
                          is_SML_patchable c patch (span_size (surrounding_instrs patch) start_idx i))
                  [start_idx..<syscall_i + 1] of
             Some i \<Rightarrow> syscall_i + 1
           | None \<Rightarrow>
               (case find (\<lambda>i. is_SML_patchable c patch (span_size (surrounding_instrs patch) start_idx i))
                       [start_idx..<second_ecall_idx] of
                  Some i \<Rightarrow> i + 1
                | None \<Rightarrow> start_idx)))"
  unfolding check_two_ecalls_def Let_def span_loop_find0 if_map_option case_map_option ..

lemma u8_sub_self: "u8_sub s s = 0"
  by (simp add: u8_sub_def)

lemma zero_span_aborts:
  assumes "csi_scan c d (items d ! i) = (p, s, s)"
      and "0 < TYPE_GW_SIZE c" and "0 < TYPE_MID_SIZE c"
  shows "create_patch_first_loop c emitted (i # rest) (d, dst) =
           Inl (Abort ''not enough space for patching around syscall'')"
proof -
  have "check_surrounding_instructions c d (items d ! i) = (p\<lparr>syscall_idx := u8_sub (SYSCALL_IDX c) s\<rparr>, 0)"
    using assms(1) by (simp add: check_surrounding_instructions_def Let_def u8_sub_self)
  moreover have "choose_class c (p\<lparr>syscall_idx := u8_sub (SYSCALL_IDX c) s\<rparr>) 0 =
      Inl (Abort ''not enough space for patching around syscall'')"
    using assms(2,3) by (simp add: choose_class_def is_SML_patchable_def)
  ultimately show ?thesis by simp
qed

lemma csi_loop_second_ecall:
  "SYSCALL_IDX c < j \<Longrightarrow> is_syscall (instrs ! j) \<Longrightarrow>
     csi_loop c d instrs (j # js) (p, s, e) = (p, s, check_two_ecalls c p (SYSCALL_IDX c) s j)"
  by simp

text \<open>
  Claim C6, amended. With \<open>span_size instrs start_idx i\<close> the summed length of the
  window from \<open>start_idx\<close> to \<open>i\<close>, \<^verbatim>\<open>check_two_ecalls\<close> searches in this
  order: first, only when the syscall number is unknown, the first index before the
  second \<^verbatim>\<open>ecall\<close> at which the span is MID-sized (it returns the index after it,
  which may lie before the first \<^verbatim>\<open>ecall\<close>); then an index up to the first
  \<^verbatim>\<open>ecall\<close> at which the span is MID-sized or SML-patchable (it returns the index
  after the first \<^verbatim>\<open>ecall\<close>); then the first index before the second
  \<^verbatim>\<open>ecall\<close> at which the span is SML-patchable; and when all fail it returns
  \<open>start_idx\<close>. The scan of \<^verbatim>\<open>check_surrounding_instructions\<close> takes that value
  as \<^verbatim>\<open>patch_end_idx\<close> when it meets a second \<^verbatim>\<open>ecall\<close>, and a scan that ends
  with \<^verbatim>\<open>patch_end_idx = patch_start_idx\<close> makes \<^verbatim>\<open>create_patch\<close> abort
  (the class sizes being positive).
\<close>

theorem check_two_ecalls_search_order:
  "check_two_ecalls c patch syscall_i start_idx second_ecall_idx =
     (case (if syscall_num patch < 0
            then find (\<lambda>i. TYPE_MID_SIZE c \<le> unat (span_size (surrounding_instrs patch) start_idx i))
                   [start_idx..<second_ecall_idx]
            else None) of
        Some i \<Rightarrow> i + 1
      | None \<Rightarrow>
          (case find (\<lambda>i. TYPE_MID_SIZE c \<le> unat (span_size (surrounding_instrs patch) start_idx i) \<or>
                          is_SML_patchable c patch (span_size (surrounding_instrs patch) start_idx i))
                  [start_idx..<syscall_i + 1] of
             Some i \<Rightarrow> syscall_i + 1
           | None \<Rightarrow>
               (case find (\<lambda>i. is_SML_patchable c patch (span_size (surrounding_instrs patch) start_idx i))
                       [start_idx..<second_ecall_idx] of
                  Some i \<Rightarrow> i + 1
                | None \<Rightarrow> start_idx)))
   \<and> (SYSCALL_IDX c < j \<and> is_syscall (instrs ! j) \<longrightarrow>
        csi_loop c d instrs (j # js) (p, s, e) = (p, s, check_two_ecalls c p (SYSCALL_IDX c) s j))
   \<and> (csi_scan c d (items d ! k) = (p, s, s) \<and> 0 < TYPE_GW_SIZE c \<and> 0 < TYPE_MID_SIZE c \<longrightarrow>
        create_patch_first_loop c emitted (k # rest) (d, dst) =
          Inl (Abort ''not enough space for patching around syscall''))"
  using check_two_ecalls_order [of c patch syscall_i start_idx second_ecall_idx]
        csi_loop_second_ecall [of c j instrs d js p s e]
        zero_span_aborts [of c d k p s emitted rest dst]
  by blast

text \<open>
  The theorem at a site whose window has a non-copiable instruction right before the
  \<^verbatim>\<open>ecall\<close> and a second \<^verbatim>\<open>ecall\<close> right after it: every search fails, the
  helper returns the start index 3, and \<^verbatim>\<open>create_patch\<close> aborts.
\<close>

theorem check_two_ecalls_search_order_witness:
  "check_two_ecalls rvc_cfg (cramped_site 0x10110) 3 3 4 = 3
   \<and> csi_scan rvc_cfg cramped_demo (items cramped_demo ! 0) = (cramped_site 0x10110, 3, 3)
   \<and> create_patch_first_loop rvc_cfg emitted_demo [0] (cramped_demo, 0x900000) =
        Inl (Abort ''not enough space for patching around syscall'')
   \<and> create_patch rvc_cfg emitted_demo cramped_demo 0x900000 =
        Inl (Abort ''not enough space for patching around syscall'')"
proof -
  have helper: "check_two_ecalls rvc_cfg (cramped_site 0x10110) 3 3 4 = 3"
    by code_simp
  have scan: "csi_scan rvc_cfg cramped_demo (items cramped_demo ! 0) = (cramped_site 0x10110, 3, 3)"
    by code_simp
  have sizes: "0 < TYPE_GW_SIZE rvc_cfg" "0 < TYPE_MID_SIZE rvc_cfg"
    by (simp_all add: rvc_cfg_def)
  have ab: "create_patch_first_loop rvc_cfg emitted_demo [0] (cramped_demo, 0x900000) =
        Inl (Abort ''not enough space for patching around syscall'')"
    using check_two_ecalls_search_order [of rvc_cfg _ _ _ _ _ _ cramped_demo _ "cramped_site 0x10110" 3 _ 0 emitted_demo "[]" "0x900000"]
          scan sizes by blast
  have len: "[0..<length (items cramped_demo)] = [0]"
    by (simp add: cramped_demo_def mk_obj_def)
  from ab have "create_patch rvc_cfg emitted_demo cramped_demo 0x900000 =
        Inl (Abort ''not enough space for patching around syscall'')"
    by (simp add: create_patch_def len)
  with helper scan ab show ?thesis by blast
qed

text \<open>
  Claim C6 as stated fails on the order: at a site with three plain instructions before
  the \<^verbatim>\<open>ecall\<close>, a second \<^verbatim>\<open>ecall\<close> at index 5 and an unknown syscall number,
  the scan calls the helper with start 0, and the helper returns 3 (the forced MID
  search, tried first), where the order of the specification returns 4 (a MID-sized
  span up to the first \<^verbatim>\<open>ecall\<close>).
\<close>

theorem check_two_ecalls_forces_MID_first:
  "csi_scan rvc_cfg twin_demo (twin_site 0x10110) = (twin_site 0x10110, 0, 3)
   \<and> check_two_ecalls rvc_cfg (twin_site 0x10110) 3 0 5 = 3
   \<and> check_two_ecalls_spec_order rvc_cfg (twin_site 0x10110) 3 0 5 = 4"
  by code_simp

section \<open>Properties of the activator\<close>

lemma activate_loop_run:
  "activate_loop c d ps =
     (map (copy_patch c)
        (takeWhile (\<lambda>p. text_start d \<le> dst_jmp_patch p \<and> dst_jmp_patch p \<le> text_end d) ps),
      if list_all (\<lambda>p. text_start d \<le> dst_jmp_patch p \<and> dst_jmp_patch p \<le> text_end d) ps
      then None else Some (Abort ''dst_jmp_patch outside text''))"
  by (induction ps) (auto simp: not_less)

lemma takeWhile_all: "list_all P xs \<Longrightarrow> takeWhile P xs = xs"
  by (induction xs) auto

lemma activate_patches_run:
  "activate_patches c d =
     (if items d = [] then ([], None)
      else if list_all (\<lambda>p. text_start d \<le> dst_jmp_patch p \<and> dst_jmp_patch p \<le> text_end d) (items d)
      then ((if uses_trampoline d then [Copy_trampoline (trampoline_address d)] else [])
              @ [Mprotect_rwx] @ map (copy_patch c) (items d) @ [Clear_cache, Mprotect_rx], None)
      else ((if uses_trampoline d then [Copy_trampoline (trampoline_address d)] else [])
              @ [Mprotect_rwx]
              @ map (copy_patch c)
                  (takeWhile (\<lambda>p. text_start d \<le> dst_jmp_patch p \<and> dst_jmp_patch p \<le> text_end d) (items d)),
            Some (Abort ''dst_jmp_patch outside text'')))"
  by (simp add: activate_patches_def activate_loop_run Let_def takeWhile_all)

lemma copy_patch_inj: "copy_patch c p = copy_patch c q \<Longrightarrow> p = q"
  by (simp add: copy_patch_def split: if_splits)

lemma copy_patch_not_other:
  "copy_patch c p \<noteq> Copy_trampoline a" "copy_patch c p \<noteq> Mprotect_rwx"
  "copy_patch c p \<noteq> Clear_cache" "copy_patch c p \<noteq> Mprotect_rx"
  by (simp_all add: copy_patch_def)

lemma written_patch_in_text:
  assumes "copy_patch c p \<in> set (fst (activate_patches c d))"
  shows "text_start d \<le> dst_jmp_patch p \<and> dst_jmp_patch p \<le> text_end d"
proof -
  let ?inside = "\<lambda>p. text_start d \<le> dst_jmp_patch p \<and> dst_jmp_patch p \<le> text_end d"
  have "copy_patch c p \<in> copy_patch c ` set (takeWhile ?inside (items d))"
    using assms
    by (auto simp: activate_patches_run copy_patch_not_other takeWhile_all split: if_splits)
  then obtain q where q: "q \<in> set (takeWhile ?inside (items d))" "copy_patch c p = copy_patch c q"
    by blast
  then have "p = q" by (simp add: copy_patch_inj)
  with q(1) show ?thesis by (auto dest: set_takeWhileD)
qed

lemma guard_ignores_size:
  "snd (activate_patches c (d\<lparr>items := map (\<lambda>p. p\<lparr>patch_size_bytes := sz p\<rparr>) (items d)\<rparr>)) =
     snd (activate_patches c d)"
  by (simp add: activate_patches_run list_all_iff)

text \<open>
  Claim C4, amended. \<^verbatim>\<open>activate_patches\<close> goes through the patches of an object
  in array order and writes a patch exactly when
  \<open>text_start \<le> dst_jmp_patch \<le> text_end\<close> (unsigned, both bounds included). When
  every patch passes, all are written, between the change to writable pages and the
  cache flush. The first patch outside the range aborts the process; the trampoline, the
  change of protection and the patches before it have been written by then. So every
  patch that is written starts inside \<open>[text_start, text_end]\<close>. The test never
  reads \<open>patch_size_bytes\<close>: changing the sizes changes neither whether the run
  aborts nor where.
\<close>

theorem activate_patches_checks_patch_start:
  "activate_patches c d =
     (if items d = [] then ([], None)
      else if list_all (\<lambda>p. text_start d \<le> dst_jmp_patch p \<and> dst_jmp_patch p \<le> text_end d) (items d)
      then ((if uses_trampoline d then [Copy_trampoline (trampoline_address d)] else [])
              @ [Mprotect_rwx] @ map (copy_patch c) (items d) @ [Clear_cache, Mprotect_rx], None)
      else ((if uses_trampoline d then [Copy_trampoline (trampoline_address d)] else [])
              @ [Mprotect_rwx]
              @ map (copy_patch c)
                  (takeWhile (\<lambda>p. text_start d \<le> dst_jmp_patch p \<and> dst_jmp_patch p \<le> text_end d) (items d)),
            Some (Abort ''dst_jmp_patch outside text'')))
   \<and> (copy_patch c p \<in> set (fst (activate_patches c d)) \<longrightarrow>
        text_start d \<le> dst_jmp_patch p \<and> dst_jmp_patch p \<le> text_end d)
   \<and> snd (activate_patches c (d\<lparr>items := map (\<lambda>p. p\<lparr>patch_size_bytes := sz p\<rparr>) (items d)\<rparr>)) =
        snd (activate_patches c d)"
  using activate_patches_run [of c d] written_patch_in_text [of c p d] guard_ignores_size [where c = c and d = d and sz = sz]
  by blast

text \<open>
  The theorem at three objects: one whose two patches pass; one whose second patch
  starts four bytes past \<open>text_end\<close>, so that the first patch is written and the
  process then aborts; and one whose patch starts exactly at \<open>text_end\<close> and is
  written.
\<close>

theorem activate_patches_checks_patch_start_witness:
  "activate_patches rvc_cfg (two_objs ! 0) =
     ([Mprotect_rwx, Copy_GW (items (two_objs ! 0) ! 0), Copy_SML (items (two_objs ! 0) ! 1),
       Clear_cache, Mprotect_rx], None)
   \<and> activate_patches rvc_cfg outside_obj =
     ([Mprotect_rwx, Copy_GW (items outside_obj ! 0)], Some (Abort ''dst_jmp_patch outside text''))
   \<and> activate_patches rvc_cfg edge_obj =
     ([Mprotect_rwx, Copy_SML edge_patch, Clear_cache, Mprotect_rx], None)
   \<and> dst_jmp_patch edge_patch = text_end edge_obj
   \<and> copy_patch rvc_cfg edge_patch \<in> set (fst (activate_patches rvc_cfg edge_obj))
   \<and> text_start edge_obj \<le> dst_jmp_patch edge_patch \<and> dst_jmp_patch edge_patch \<le> text_end edge_obj"
proof -
  have a: "activate_patches rvc_cfg (two_objs ! 0) =
     ([Mprotect_rwx, Copy_GW (items (two_objs ! 0) ! 0), Copy_SML (items (two_objs ! 0) ! 1),
       Clear_cache, Mprotect_rx], None)"
    using activate_patches_checks_patch_start [of rvc_cfg "two_objs ! 0"]
    by (simp add: copy_patch_def rvc_cfg_def two_objs_def mk_obj_def mk_patch_def)
  have b: "activate_patches rvc_cfg outside_obj =
     ([Mprotect_rwx, Copy_GW (items outside_obj ! 0)], Some (Abort ''dst_jmp_patch outside text''))"
    using activate_patches_checks_patch_start [of rvc_cfg outside_obj]
    by (simp add: copy_patch_def rvc_cfg_def outside_obj_def mk_obj_def mk_patch_def)
  have c: "activate_patches rvc_cfg edge_obj =
     ([Mprotect_rwx, Copy_SML edge_patch, Clear_cache, Mprotect_rx], None)"
    using activate_patches_checks_patch_start [of rvc_cfg edge_obj]
    by (simp add: copy_patch_def rvc_cfg_def edge_obj_def edge_patch_def mk_obj_def mk_patch_def)
  have d: "dst_jmp_patch edge_patch = text_end edge_obj"
    by (simp add: edge_obj_def edge_patch_def mk_obj_def mk_patch_def)
  have e: "copy_patch rvc_cfg edge_patch \<in> set (fst (activate_patches rvc_cfg edge_obj))"
    using c by (simp add: copy_patch_def rvc_cfg_def edge_patch_def mk_patch_def)
  from activate_patches_checks_patch_start [of rvc_cfg edge_obj edge_patch] e
  have f: "text_start edge_obj \<le> dst_jmp_patch edge_patch \<and> dst_jmp_patch edge_patch \<le> text_end edge_obj"
    by blast
  from a b c d e f show ?thesis by blast
qed

lemma tail_create: "create_patch rvc_cfg emitted_demo tail_demo 0x900000 = Inr (tail_demo_patched, 0x900040)"
  by code_simp

lemma tail_fields:
  "text_start tail_demo_patched = 0x10000"
  "text_end tail_demo_patched = 0x10114"
  "uses_trampoline tail_demo_patched = False"
  "dst_jmp_patch (items tail_demo_patched ! 0) = 0x1010a"
  "patch_size_bytes (items tail_demo_patched ! 0) = 12"
  "syscall_num (items tail_demo_patched ! 0) = - 3"
  "items tail_demo_patched = [items tail_demo_patched ! 0]"
  by (simp_all add: tail_demo_patched_def)

lemma tail_activate:
  "activate_patches rvc_cfg tail_demo_patched =
       ([Mprotect_rwx, Copy_MID (items tail_demo_patched ! 0), Clear_cache, Mprotect_rx], None)"
proof -
  have i: "items tail_demo_patched = [items tail_demo_patched ! 0]" by (rule tail_fields(7))
  show ?thesis
    unfolding activate_patches_run
    by (subst (1 2 3 4) i) (simp add: tail_fields(1-6) copy_patch_def rvc_cfg_def)
qed

text \<open>
  Claim C4 as stated fails on a descriptor that \<^verbatim>\<open>create_patch\<close> produces. The
  object's text ends right after its one \<^verbatim>\<open>ecall\<close> (at \<open>0x10114\<close>), and the
  window allows a MID patch only. \<^verbatim>\<open>create_patch\<close> completes with
  \<open>dst_jmp_patch = 0x1010a\<close> and \<open>patch_size_bytes = 12\<close>,
  \<^verbatim>\<open>activate_patches\<close> accepts and writes the patch, and
  \<open>dst_jmp_patch + patch_size_bytes = 0x10116\<close> lies past \<open>text_end\<close>.
\<close>

theorem create_patch_leaves_patch_past_text_end:
  "create_patch rvc_cfg emitted_demo tail_demo 0x900000 = Inr (tail_demo_patched, 0x900040)
   \<and> activate_patches rvc_cfg tail_demo_patched =
       ([Mprotect_rwx, Copy_MID (items tail_demo_patched ! 0), Clear_cache, Mprotect_rx], None)
   \<and> text_end tail_demo_patched = 0x10114
   \<and> dst_jmp_patch (items tail_demo_patched ! 0) = 0x1010a
   \<and> patch_size_bytes (items tail_demo_patched ! 0) = 12
   \<and> unat (text_end tail_demo_patched) <
       unat (dst_jmp_patch (items tail_demo_patched ! 0)) + patch_size_bytes (items tail_demo_patched ! 0)"
  by (simp add: tail_create tail_activate tail_fields(1-6))

end
